theory Spec2Isabelle
  imports Complex_Main
begin

section \<open>Values of the JavaScript runtime\<close>

text \<open>
  The controller \<^verbatim>\<open>validate\<close> receives \<^verbatim>\<open>req.body\<close>, which
  \<^verbatim>\<open>express.json()\<close> has parsed from JSON, and reads it without checking its
  shape. The request is therefore modelled as a parsed JSON value, not as a typed record:
  a field the TypeScript types promise may be absent or hold another kind of value.

  Numbers are IEEE doubles in the program; here they are reals. The program only compares
  numbers and subtracts the constant 300000 from the clock, which is exact on the
  millisecond timestamps of the valid date range.

  An object is the list of its own properties; \<open>map_of\<close> reads a property.
\<close>

datatype json =
    JNull
  | JBool bool
  | JNum real
  | JStr string
  | JArr "json list"
  | JObj "(string \<times> json) list"

text \<open>
  What an expression of the program can evaluate to: \<^verbatim>\<open>undefined\<close>, a parsed JSON
  value, or a built-in that an object inherits from \<^verbatim>\<open>Object.prototype\<close> under the
  given name (a function, or the prototype object itself for \<^verbatim>\<open>__proto__\<close>).
\<close>

datatype jsval = Undefined | Json json | Builtin string

text \<open>
  What can be thrown: \<^verbatim>\<open>new Error(msg)\<close>, a \<^verbatim>\<open>TypeError\<close> of the runtime
  with its message, or a value whose \<^verbatim>\<open>message\<close> property is undefined.
\<close>

datatype exn = Error string | TypeError string | Thrown

fun error_message :: "exn \<Rightarrow> string option" where
  "error_message (Error m) = Some m"
| "error_message (TypeError m) = Some m"
| "error_message Thrown = None"

text \<open>Sequencing of steps that may throw: the first exception ends the evaluation.\<close>

definition and_then :: "exn + 'a \<Rightarrow> ('a \<Rightarrow> exn + 'b) \<Rightarrow> exn + 'b" where
  "and_then m f = (case m of Inl e \<Rightarrow> Inl e | Inr x \<Rightarrow> f x)"

text \<open>The own property names of \<^verbatim>\<open>Object.prototype\<close> (V8).\<close>

definition Object_prototype :: "string list" where
  "Object_prototype =
     [''constructor'', ''__defineGetter__'', ''__defineSetter__'', ''hasOwnProperty'',
      ''__lookupGetter__'', ''__lookupSetter__'', ''isPrototypeOf'',
      ''propertyIsEnumerable'', ''toString'', ''valueOf'', ''__proto__'',
      ''toLocaleString'']"

definition quoted :: "string \<Rightarrow> string" where
  "quoted k = [CHR 0x27] @ k @ [CHR 0x27]"

text \<open>
  Reading a property, \<^verbatim>\<open>v.k\<close> or \<^verbatim>\<open>v[k]\<close>. On \<^verbatim>\<open>undefined\<close> and
  \<^verbatim>\<open>null\<close> it is a \<^verbatim>\<open>TypeError\<close>. On any other value it gives an own
  property of an object, else what the prototype chain has: a built-in for the names of
  \<^verbatim>\<open>Object.prototype\<close>, \<^verbatim>\<open>undefined\<close> otherwise. On primitives and arrays
  the program reads only the field names of its types, never an index or
  \<^verbatim>\<open>length\<close>.
\<close>

definition inherited :: "string \<Rightarrow> jsval" where
  "inherited k = (if k \<in> set Object_prototype then Builtin k else Undefined)"

definition nullish :: "jsval \<Rightarrow> bool" where
  "nullish v = (v = Undefined \<or> v = Json JNull)"

fun read_prop :: "jsval \<Rightarrow> string \<Rightarrow> jsval" where
  "read_prop (Json (JObj fs)) k =
     (case map_of fs k of Some v \<Rightarrow> Json v | None \<Rightarrow> inherited k)"
| "read_prop v k = inherited k"

definition get_prop :: "jsval \<Rightarrow> string \<Rightarrow> exn + jsval" where
  "get_prop v k =
     (if v = Undefined
      then Inl (TypeError (''Cannot read properties of undefined (reading '' @ quoted k @ '')''))
      else if v = Json JNull
      then Inl (TypeError (''Cannot read properties of null (reading '' @ quoted k @ '')''))
      else Inr (read_prop v k))"

text \<open>
  \<^verbatim>\<open>v.hasOwnProperty(k)\<close>: the method is looked up on the value itself, so an own
  property of that name (never callable in parsed JSON) makes the call a
  \<^verbatim>\<open>TypeError\<close>. The program asks only for \<^verbatim>\<open>purchaseToken\<close>, which no
  primitive or array has as an own property.
\<close>

fun has_own :: "jsval \<Rightarrow> string \<Rightarrow> bool" where
  "has_own (Json (JObj fs)) k = (map_of fs k \<noteq> None)"
| "has_own v k = False"

definition call_hasOwnProperty :: "string \<Rightarrow> jsval \<Rightarrow> string \<Rightarrow> exn + bool" where
  "call_hasOwnProperty callee v k =
     and_then (get_prop v ''hasOwnProperty'') (\<lambda>m.
       if m = Builtin ''hasOwnProperty'' then Inr (has_own v k)
       else Inl (TypeError (callee @ ''.hasOwnProperty is not a function'')))"

text \<open>\<^verbatim>\<open>ToBoolean\<close>, as \<^verbatim>\<open>!v\<close>, \<^verbatim>\<open>v ? a : b\<close> and \<^verbatim>\<open>if (v)\<close> apply it.\<close>

fun truthy :: "jsval \<Rightarrow> bool" where
  "truthy Undefined = False"
| "truthy (Json JNull) = False"
| "truthy (Json (JBool b)) = b"
| "truthy (Json (JNum x)) = (x \<noteq> 0)"
| "truthy (Json (JStr s)) = (s \<noteq> [])"
| "truthy (Json (JArr xs)) = True"
| "truthy (Json (JObj fs)) = True"
| "truthy (Builtin n) = True"

text \<open>
  Strict equality \<^verbatim>\<open>===\<close>. Its two operands in the program never alias (one comes
  from the request, the other from a provider or is a literal), so two arrays or two
  objects are never equal.
\<close>

definition strict_eq :: "jsval \<Rightarrow> jsval \<Rightarrow> bool" where
  "strict_eq v w =
     (case v of
        Json (JArr xs) \<Rightarrow> False
      | Json (JObj fs) \<Rightarrow> False
      | _ \<Rightarrow> v = w)"

text \<open>
  \<^verbatim>\<open>ToString\<close>, as a template literal, a property key and the \<^verbatim>\<open>Date\<close>
  constructor apply it. The rendering of a number is left to the runtime
  (\<open>num\<close>). An array joins its elements with commas, \<^verbatim>\<open>null\<close> elements as
  the empty string. A parsed object has no callable method of its own, so one with an own
  \<^verbatim>\<open>toString\<close> property cannot be converted; any other is
  \<^verbatim>\<open>[object Object]\<close>.
\<close>

fun json_to_string :: "(real \<Rightarrow> string) \<Rightarrow> json \<Rightarrow> exn + string"
  and join_elements :: "(real \<Rightarrow> string) \<Rightarrow> json list \<Rightarrow> exn + string" where
  "json_to_string num JNull = Inr ''null''"
| "json_to_string num (JBool b) = Inr (if b then ''true'' else ''false'')"
| "json_to_string num (JNum x) = Inr (num x)"
| "json_to_string num (JStr s) = Inr s"
| "json_to_string num (JArr xs) = join_elements num xs"
| "json_to_string num (JObj fs) =
     (if map_of fs ''toString'' = None then Inr ''[object Object]''
      else Inl (TypeError ''Cannot convert object to primitive value''))"
| "join_elements num [] = Inr []"
| "join_elements num (x # xs) =
     (case (if x = JNull then Inr [] else json_to_string num x) of
        Inl e \<Rightarrow> Inl e
      | Inr s \<Rightarrow>
          (if xs = [] then Inr s
           else (case join_elements num xs of
                   Inl e \<Rightarrow> Inl e
                 | Inr t \<Rightarrow> Inr (s @ '','' @ t))))"

definition builtin_to_string :: "string \<Rightarrow> string" where
  "builtin_to_string n =
     (if n = ''__proto__'' then ''[object Object]''
      else ''function '' @ (if n = ''constructor'' then ''Object'' else n) @
           ''() { [native code] }'')"

fun to_string :: "(real \<Rightarrow> string) \<Rightarrow> jsval \<Rightarrow> exn + string" where
  "to_string num Undefined = Inr ''undefined''"
| "to_string num (Json j) = json_to_string num j"
| "to_string num (Builtin n) = Inr (builtin_to_string n)"

subsection \<open>Dates\<close>

text \<open>
  A \<^verbatim>\<open>Date\<close> is its time value: milliseconds since the epoch, or \<open>None\<close> for
  an invalid date (\<^verbatim>\<open>NaN\<close>). \<^verbatim>\<open>TimeClip\<close> truncates towards zero and
  makes anything beyond 8.64e15 ms invalid.
\<close>

type_synonym date = "int option"

definition TimeClip :: "real \<Rightarrow> date" where
  "TimeClip x =
     (if \<bar>x\<bar> > 8640000000000000 then None
      else Some (if 0 \<le> x then \<lfloor>x\<rfloor> else \<lceil>x\<rceil>))"

text \<open>
  \<^verbatim>\<open>new Date(v)\<close>: a string is parsed by \<^verbatim>\<open>Date.parse\<close> (left to the
  runtime, \<open>parse\<close>), an array or object is first converted to a string, anything
  else to a number: \<^verbatim>\<open>undefined\<close> to \<^verbatim>\<open>NaN\<close>, \<^verbatim>\<open>null\<close> and
  \<^verbatim>\<open>false\<close> to 0, \<^verbatim>\<open>true\<close> to 1.
\<close>

fun new_Date :: "(real \<Rightarrow> string) \<Rightarrow> (string \<Rightarrow> date) \<Rightarrow> jsval \<Rightarrow> exn + date" where
  "new_Date num parse Undefined = Inr None"
| "new_Date num parse (Json JNull) = Inr (Some 0)"
| "new_Date num parse (Json (JBool b)) = Inr (Some (if b then 1 else 0))"
| "new_Date num parse (Json (JNum x)) = Inr (TimeClip x)"
| "new_Date num parse (Json (JStr s)) = Inr (parse s)"
| "new_Date num parse v = and_then (to_string num v) (\<lambda>s. Inr (parse s))"

text \<open>\<^verbatim>\<open>a < b\<close> on two dates compares the time values; false when either is invalid.\<close>

fun date_less :: "date \<Rightarrow> date \<Rightarrow> bool" where
  "date_less (Some a) (Some b) = (a < b)"
| "date_less a b = False"

section \<open>The collaborators of the controller\<close>

text \<open>
  Everything the controller reaches outside itself is a field of the environment: the
  process environment variables, the clock, the file system, the two store clients, the
  payload decoder and the HTTP client of the minting service. A call that can fail returns
  the exception it throws (\<open>Inl\<close>) or its result.
\<close>

record AppStoreServerAPIClient =
  signingKey :: string
  keyId :: string
  issuerId :: string
  bundleId :: string

record mint_body =
  toAddress :: jsval
  amount :: jsval

type_synonym headers = "(string \<times> string) list"

record env =
  THIRDWEB_ENGINE_URL :: "string option"
  THIRDWEB_ENGINE_BACKEND_WALLET :: "string option"
  THIRDWEB_CHAIN_ID :: "string option"
  THIRDWEB_API_SECRET_KEY :: "string option"
  APPLE_APP_STORE_ISSUER_ID :: "string option"
  APPLE_APP_STORE_KEY_ID :: "string option"
  APPLE_APP_STORE_BUNDLE_ID :: "string option"
  Date_now :: int
  Date_parse :: "string \<Rightarrow> date"
  Number_toString :: "real \<Rightarrow> string"
  readFile :: "string \<Rightarrow> exn + string"
  purchases_products_get :: "jsval \<Rightarrow> jsval \<Rightarrow> jsval \<Rightarrow> exn + jsval"
  getTransactionInfo :: "AppStoreServerAPIClient \<Rightarrow> jsval \<Rightarrow> exn + jsval"
  base64_JSON_parse :: "string \<Rightarrow> exn + json"
  axios_post :: "string \<Rightarrow> mint_body \<Rightarrow> headers \<Rightarrow> exn + jsval"

text \<open>
  \<open>purchases_products_get\<close> takes \<^verbatim>\<open>packageName\<close>, \<^verbatim>\<open>productId\<close> and
  \<^verbatim>\<open>token\<close> and gives \<^verbatim>\<open>response.data\<close>; \<open>axios_post\<close> takes the URL, the
  body and the headers and gives \<^verbatim>\<open>response.data\<close>; \<open>base64_JSON_parse s\<close> is
  \<^verbatim>\<open>JSON.parse(Buffer.from(s, "base64").toString())\<close>.

  The network calls a request makes are recorded in order.
\<close>

datatype call =
    GoogleQuery jsval jsval jsval
  | AppleQuery jsval
  | MintPost string mint_body headers

fun is_mint :: "call \<Rightarrow> bool" where
  "is_mint (MintPost url body hs) = True"
| "is_mint c = False"

fun is_provider :: "call \<Rightarrow> bool" where
  "is_provider (MintPost url body hs) = False"
| "is_provider c = True"

section \<open>Constants of the controller\<close>

text \<open>
  \<^verbatim>\<open>value ? value.replace(/^"|"$/g, "") : ""\<close>: one double quote is removed at the
  start and one at the end.
\<close>

definition stripQuotes :: "string option \<Rightarrow> string" where
  "stripQuotes v =
     (case v of
        None \<Rightarrow> []
      | Some s \<Rightarrow>
          (let t = (if s \<noteq> [] \<and> hd s = CHR 0x22 then tl s else s)
           in if t \<noteq> [] \<and> last t = CHR 0x22 then butlast t else t))"

definition REWARD_MAPPING :: json where
  "REWARD_MAPPING =
     JObj [(''100_tokens'',
            JObj [(''contract'', JStr ''0x33D1a021aFbE0CFB0AC7CcB7c5A247777b3e7c50''),
                  (''amount'', JStr ''100'')])]"

definition ENGINE_URL :: "env \<Rightarrow> string" where
  "ENGINE_URL e = stripQuotes (THIRDWEB_ENGINE_URL e)"

definition BACKEND_WALLET :: "env \<Rightarrow> string" where
  "BACKEND_WALLET e = stripQuotes (THIRDWEB_ENGINE_BACKEND_WALLET e)"

definition CHAIN :: "env \<Rightarrow> string" where
  "CHAIN e = stripQuotes (THIRDWEB_CHAIN_ID e)"

definition SECRET :: "env \<Rightarrow> string" where
  "SECRET e = stripQuotes (THIRDWEB_API_SECRET_KEY e)"

definition HEADERS :: "env \<Rightarrow> headers" where
  "HEADERS e =
     [(''x-backend-wallet-address'', BACKEND_WALLET e),
      (''Authorization'', ''Bearer '' @ SECRET e)]"

text \<open>\<^verbatim>\<open>new Date(Date.now() - 5 * 60 * 1000)\<close>\<close>

definition earliestOkDate :: "env \<Rightarrow> date" where
  "earliestOkDate e = TimeClip (real_of_int (Date_now e) - 5 * 60 * 1000)"

section \<open>Google receipt validation\<close>

text \<open>
  \<^verbatim>\<open>verifyAndroidReceipt\<close>. The arguments of the query are read from the receipt;
  the checks run on \<^verbatim>\<open>response.data\<close> in the order of the source: the purchase
  state, then the purchase time, then (in the \<^verbatim>\<open>else if\<close>) the order ID. The
  \<^verbatim>\<open>catch\<close> logs and rethrows, so whatever is thrown is the result.
\<close>

definition android_query :: "jsval \<Rightarrow> exn + (jsval \<times> jsval \<times> jsval)" where
  "android_query receipt =
     and_then (get_prop receipt ''receiptData'') (\<lambda>receiptData.
     and_then (get_prop receiptData ''packageName'') (\<lambda>packageName.
     and_then (get_prop receiptData ''productID'') (\<lambda>productID.
     and_then (get_prop receiptData ''purchaseToken'') (\<lambda>purchaseToken.
       Inr (packageName, productID, purchaseToken)))))"

definition android_checks :: "env \<Rightarrow> jsval \<Rightarrow> jsval \<Rightarrow> exn + unit" where
  "android_checks e receipt data =
     and_then (get_prop data ''purchaseState'') (\<lambda>purchaseState.
     if \<not> strict_eq purchaseState (Json (JNum 0)) then Inl (Error ''Invalid purchase state'')
     else
     and_then (get_prop data ''purchaseTimeMillis'') (\<lambda>purchaseTimeMillis.
     and_then (new_Date (Number_toString e) (Date_parse e) purchaseTimeMillis) (\<lambda>purchaseDate.
     if date_less purchaseDate (earliestOkDate e) then Inl (Error ''Purchase time is too old'')
     else
     and_then (get_prop data ''orderId'') (\<lambda>orderId.
     and_then (get_prop receipt ''receiptData'') (\<lambda>receiptData.
     and_then (get_prop receiptData ''orderID'') (\<lambda>orderID.
     if \<not> strict_eq orderId orderID then Inl (Error ''Invalid order ID'')
     else Inr ()))))))"

definition verifyAndroidReceipt :: "env \<Rightarrow> jsval \<Rightarrow> (exn + unit) \<times> call list" where
  "verifyAndroidReceipt e receipt =
     (case android_query receipt of
        Inl x \<Rightarrow> (Inl x, [])
      | Inr (packageName, productId, token) \<Rightarrow>
          (and_then (purchases_products_get e packageName productId token)
             (android_checks e receipt),
           [GoogleQuery packageName productId token]))"

section \<open>Apple receipt validation\<close>

text \<open>\<^verbatim>\<open>s.split(".")\<close>\<close>

fun split_dot :: "string \<Rightarrow> string list" where
  "split_dot [] = [[]]"
| "split_dot (c # cs) =
     (if c = CHR ''.'' then [] # split_dot cs
      else (case split_dot cs of
              [] \<Rightarrow> [[c]]
            | p # ps \<Rightarrow> (c # p) # ps))"

text \<open>
  \<^verbatim>\<open>transactionInfo.signedTransactionInfo.split(".")[1]\<close>: the second segment of a
  string, \<open>None\<close> (\<^verbatim>\<open>undefined\<close>) when there is none. Only a string has a
  \<^verbatim>\<open>split\<close> method.
\<close>

definition second_segment :: "jsval \<Rightarrow> exn + string option" where
  "second_segment signed =
     (case signed of
        Json (JStr s) \<Rightarrow>
          (let parts = split_dot s
           in Inr (if 1 < length parts then Some (parts ! 1) else None))
      | _ \<Rightarrow>
          Inl (TypeError ''transactionInfo.signedTransactionInfo.split is not a function''))"

text \<open>
  \<^verbatim>\<open>JSON.parse(Buffer.from(encodedPayload, "base64").toString())\<close>:
  \<^verbatim>\<open>Buffer.from\<close> refuses \<^verbatim>\<open>undefined\<close>.
\<close>

definition decode_payload :: "env \<Rightarrow> string option \<Rightarrow> exn + json" where
  "decode_payload e encodedPayload =
     (case encodedPayload of
        None \<Rightarrow>
          Inl (TypeError (''The first argument must be of type string or an instance of '' @
                          ''Buffer, ArrayBuffer, or Array or an Array-like Object. '' @
                          ''Received undefined''))
      | Some s \<Rightarrow> base64_JSON_parse e s)"

text \<open>
  The body of the \<^verbatim>\<open>try\<close> of \<^verbatim>\<open>verifyiOSReceipt\<close> after the query, in the order
  of the source: no signed payload, the product ID, then (in the \<^verbatim>\<open>else if\<close>) the
  quantity, then the purchase time.
\<close>

definition apple_checks :: "env \<Rightarrow> jsval \<Rightarrow> jsval \<Rightarrow> exn + unit" where
  "apple_checks e receipt transactionInfo =
     (if \<not> truthy transactionInfo \<or> \<not> truthy (read_prop transactionInfo ''signedTransactionInfo'')
      then Inl (Error ''Transaction not found'')
      else
      and_then (second_segment (read_prop transactionInfo ''signedTransactionInfo'')) (\<lambda>encodedPayload.
      and_then (decode_payload e encodedPayload) (\<lambda>decodedPayload.
      and_then (get_prop (Json decodedPayload) ''productId'') (\<lambda>productId.
      and_then (get_prop receipt ''receiptData'') (\<lambda>receiptData.
      and_then (get_prop receiptData ''productID'') (\<lambda>productID.
      if \<not> strict_eq productId productID then Inl (Error ''Invalid product ID'')
      else
      and_then (get_prop (Json decodedPayload) ''quantity'') (\<lambda>quantity.
      and_then (get_prop receiptData ''quantity'') (\<lambda>claimed.
      if \<not> strict_eq quantity claimed then Inl (Error ''Invalid quantity'')
      else
      and_then (get_prop (Json decodedPayload) ''purchaseDate'') (\<lambda>v.
      and_then (new_Date (Number_toString e) (Date_parse e) v) (\<lambda>purchaseDate.
      if date_less purchaseDate (earliestOkDate e) then Inl (Error ''Purchase time is too old'')
      else Inr ()))))))))))"

definition verifyiOSReceipt :: "env \<Rightarrow> jsval \<Rightarrow> (exn + unit) \<times> call list" where
  "verifyiOSReceipt e receipt =
     (case readFile e ''subscription-key.p8'' of
        Inl x \<Rightarrow> (Inl x, [])
      | Inr encodedKey \<Rightarrow>
          (let client = \<lparr>signingKey = encodedKey,
                         keyId = stripQuotes (APPLE_APP_STORE_KEY_ID e),
                         issuerId = stripQuotes (APPLE_APP_STORE_ISSUER_ID e),
                         bundleId = stripQuotes (APPLE_APP_STORE_BUNDLE_ID e)\<rparr>
           in case and_then (get_prop receipt ''receiptData'')
                     (\<lambda>receiptData. get_prop receiptData ''transactionID'') of
                Inl x \<Rightarrow> (Inl x, [])
              | Inr transactionId \<Rightarrow>
                  (and_then (getTransactionInfo e client transactionId)
                     (apple_checks e receipt),
                   [AppleQuery transactionId])))"

section \<open>Request validation\<close>

text \<open>
  What a request ends in: a response (status and JSON body; \<^verbatim>\<open>res.json\<close> alone
  answers with status 200), or an exception that leaves \<^verbatim>\<open>validate\<close> with no
  response written.
\<close>

datatype outcome = Responded nat jsval | Escaped exn

definition message_body :: "string \<Rightarrow> jsval" where
  "message_body m = Json (JObj [(''message'', JStr m)])"

text \<open>
  ``Parse receipt'': \<^verbatim>\<open>googlePlayReceipt\<close> or \<^verbatim>\<open>appleReceipt\<close> is set to
  \<^verbatim>\<open>parsedReq.receipt\<close>, the other stays \<^verbatim>\<open>undefined\<close>.
\<close>

definition parse_receipt :: "jsval \<Rightarrow> exn + (jsval \<times> jsval)" where
  "parse_receipt parsedReq =
     and_then (get_prop parsedReq ''receipt'') (\<lambda>receipt.
     and_then (get_prop receipt ''receiptData'') (\<lambda>receiptData.
     and_then (call_hasOwnProperty ''parsedReq.receipt.receiptData'' receiptData
                 ''purchaseToken'') (\<lambda>google.
       Inr (if google then (receipt, Undefined) else (Undefined, receipt)))))"

text \<open>
  ``Find reward'': \<^verbatim>\<open>REWARD_MAPPING[receipt.receiptData.productID]\<close>, a property read
  on a plain object with the product ID as the key.
\<close>

definition reward_of :: "env \<Rightarrow> jsval \<Rightarrow> exn + jsval" where
  "reward_of e receipt =
     and_then (get_prop receipt ''receiptData'') (\<lambda>receiptData.
     and_then (get_prop receiptData ''productID'') (\<lambda>productID.
     and_then (to_string (Number_toString e) productID) (\<lambda>key.
       get_prop (Json REWARD_MAPPING) key)))"

definition find_reward :: "env \<Rightarrow> jsval \<Rightarrow> jsval \<Rightarrow> exn + jsval" where
  "find_reward e googlePlayReceipt appleReceipt =
     (if truthy googlePlayReceipt then reward_of e googlePlayReceipt
      else reward_of e appleReceipt)"

text \<open>``Validate receipt'': the body of the first \<^verbatim>\<open>try\<close>.\<close>

definition validate_receipt :: "env \<Rightarrow> jsval \<Rightarrow> jsval \<Rightarrow> (exn + unit) \<times> call list" where
  "validate_receipt e googlePlayReceipt appleReceipt =
     (if truthy googlePlayReceipt then verifyAndroidReceipt e googlePlayReceipt
      else verifyiOSReceipt e appleReceipt)"

definition receipt_message :: "exn \<Rightarrow> string" where
  "receipt_message x =
     ''Unable to validate receipt: '' @
     (case error_message x of None \<Rightarrow> ''undefined'' | Some m \<Rightarrow> m)"

text \<open>
  ``Approve mint request'': the URL and the body of the request, then the one
  \<^verbatim>\<open>axios.post\<close>; anything thrown in this \<^verbatim>\<open>try\<close> becomes the 400 response.
\<close>

definition mint_request :: "env \<Rightarrow> jsval \<Rightarrow> jsval \<Rightarrow> exn + (string \<times> mint_body)" where
  "mint_request e parsedReq reward =
     and_then (get_prop reward ''contract'') (\<lambda>contract.
     and_then (to_string (Number_toString e) contract) (\<lambda>c.
     and_then (get_prop parsedReq ''toAddress'') (\<lambda>t.
     and_then (get_prop reward ''amount'') (\<lambda>a.
       Inr (ENGINE_URL e @ ''/contract/'' @ CHAIN e @ ''/'' @ c @ ''/erc20/mint-to'',
            \<lparr>toAddress = t, amount = a\<rparr>)))))"

definition approve_mint :: "env \<Rightarrow> jsval \<Rightarrow> jsval \<Rightarrow> outcome \<times> call list" where
  "approve_mint e parsedReq reward =
     (case mint_request e parsedReq reward of
        Inl x \<Rightarrow> (Responded 400 (message_body ''Unable to sign payload.''), [])
      | Inr (url, body) \<Rightarrow>
          (case axios_post e url body (HEADERS e) of
             Inl x \<Rightarrow>
               (Responded 400 (message_body ''Unable to sign payload.''),
                [MintPost url body (HEADERS e)])
           | Inr data \<Rightarrow> (Responded 200 data, [MintPost url body (HEADERS e)])))"

text \<open>\<^verbatim>\<open>validate\<close>: the outcome of a request and the network calls it made.\<close>

definition validate :: "env \<Rightarrow> jsval \<Rightarrow> outcome \<times> call list" where
  "validate e parsedReq =
     (case parse_receipt parsedReq of
        Inl x \<Rightarrow> (Escaped x, [])
      | Inr (googlePlayReceipt, appleReceipt) \<Rightarrow>
          (case find_reward e googlePlayReceipt appleReceipt of
             Inl x \<Rightarrow> (Escaped x, [])
           | Inr reward \<Rightarrow>
               if \<not> truthy reward
               then (Responded 400
                       (message_body ''Invalid product ID, could not find reward.''), [])
               else
                 (case validate_receipt e googlePlayReceipt appleReceipt of
                    (Inl x, calls) \<Rightarrow> (Responded 401 (message_body (receipt_message x)), calls)
                  | (Inr u, calls) \<Rightarrow>
                      (case approve_mint e parsedReq reward of
                         (result, mint_calls) \<Rightarrow> (result, calls @ mint_calls)))))"

section \<open>Test doubles\<close>

text \<open>
  A mock environment in the manner of the end-to-end scenarios: a fixed clock, a Google
  client and an Apple client that answer every query alike, a payload decoder that knows
  the one segment \<^verbatim>\<open>payload\<close>, and a minting endpoint with a fixed answer. No
  scenario renders a number. The only strings a scenario gives to \<^verbatim>\<open>Date.parse\<close>
  are runs of thirteen digits, which V8 reads as no date: the mock parses no string.
\<close>

definition mock ::
  "int \<Rightarrow> (exn + jsval) \<Rightarrow> (exn + jsval) \<Rightarrow> (exn + json) \<Rightarrow> (exn + jsval) \<Rightarrow> env" where
  "mock now google apple payload mint =
     \<lparr>THIRDWEB_ENGINE_URL = Some ''https://engine.test'',
      THIRDWEB_ENGINE_BACKEND_WALLET = Some ''0xWALLET'',
      THIRDWEB_CHAIN_ID = Some ''137'',
      THIRDWEB_API_SECRET_KEY = Some ''secret'',
      APPLE_APP_STORE_ISSUER_ID = Some ''issuer'',
      APPLE_APP_STORE_KEY_ID = Some ''key'',
      APPLE_APP_STORE_BUNDLE_ID = Some ''com.x'',
      Date_now = now,
      Date_parse = (\<lambda>s. None),
      Number_toString = (\<lambda>x. ''0''),
      readFile = (\<lambda>path. Inr ''p8''),
      purchases_products_get = (\<lambda>packageName productId token. google),
      getTransactionInfo = (\<lambda>client transactionId. apple),
      base64_JSON_parse = (\<lambda>s. if s = ''payload'' then payload else Inl Thrown),
      axios_post = (\<lambda>url body hs. mint)\<rparr>"

definition google_receipt :: "string \<Rightarrow> json" where
  "google_receipt product =
     JObj [(''receiptData'', JObj
        [(''productID'', JStr product), (''purchaseToken'', JStr ''tok1''),
         (''packageName'', JStr ''com.x''), (''orderID'', JStr ''ord1''),
         (''transactionID'', JStr ''t1''), (''purchaseDate'', JStr ''now''),
         (''purchaseState'', JNum 0)])]"

definition google_request :: "string \<Rightarrow> jsval" where
  "google_request product =
     Json (JObj [(''receipt'', google_receipt product), (''toAddress'', JStr ''0xABC'')])"

definition google_data :: "real \<Rightarrow> real \<Rightarrow> string \<Rightarrow> jsval" where
  "google_data state ms order =
     Json (JObj [(''purchaseState'', JNum state), (''purchaseTimeMillis'', JNum ms),
                 (''orderId'', JStr order)])"

text \<open>
  The Google client gives \<^verbatim>\<open>purchaseTimeMillis\<close> as the API sends it, a string
  of digits.
\<close>

definition google_data_text :: "real \<Rightarrow> string \<Rightarrow> string \<Rightarrow> jsval" where
  "google_data_text state ms order =
     Json (JObj [(''purchaseState'', JNum state), (''purchaseTimeMillis'', JStr ms),
                 (''orderId'', JStr order)])"

definition apple_receipt :: "real \<Rightarrow> string \<Rightarrow> json" where
  "apple_receipt quantity cancellationDate =
     JObj [(''receiptData'', JObj
        [(''quantity'', JNum quantity), (''productID'', JStr ''100_tokens''),
         (''transactionID'', JStr ''t1''), (''originalTransactionIdentifier'', JStr ''t0''),
         (''purchaseDate'', JStr ''2023-11-14 22:13:20''),
         (''originalPurchaseDate'', JStr ''2023-11-14 22:13:20''),
         (''subscriptionExpirationDate'', JStr []),
         (''cancellationDate'', JStr cancellationDate),
         (''isFreeTrial'', JNum 0), (''productType'', JNum 0),
         (''isIntroductoryPricePeriod'', JNum 0)])]"

definition apple_request :: "real \<Rightarrow> string \<Rightarrow> jsval" where
  "apple_request quantity cancellationDate =
     Json (JObj [(''receipt'', apple_receipt quantity cancellationDate),
                 (''toAddress'', JStr ''0xABC'')])"

definition apple_info :: jsval where
  "apple_info = Json (JObj [(''signedTransactionInfo'', JStr ''header.payload.signature'')])"

definition apple_payload :: "string \<Rightarrow> real \<Rightarrow> real \<Rightarrow> json" where
  "apple_payload product quantity ms =
     JObj [(''productId'', JStr product), (''quantity'', JNum quantity),
           (''purchaseDate'', JNum ms)]"

definition minted :: jsval where
  "minted = Json (JObj [(''result'', JObj [(''queueId'', JStr ''q1'')])])"

text \<open>\<^verbatim>\<open>REWARD_MAPPING["100_tokens"]\<close>, the one reward of the catalog.\<close>

definition catalog_reward :: jsval where
  "catalog_reward = read_prop (Json REWARD_MAPPING) ''100_tokens''"

section \<open>Basic facts\<close>

lemmas model_defs =
  validate_def parse_receipt_def find_reward_def reward_of_def validate_receipt_def
  approve_mint_def mint_request_def receipt_message_def message_body_def
  verifyAndroidReceipt_def android_query_def android_checks_def
  verifyiOSReceipt_def apple_checks_def second_segment_def decode_payload_def
  get_prop_def call_hasOwnProperty_def inherited_def Object_prototype_def quoted_def
  strict_eq_def earliestOkDate_def TimeClip_def REWARD_MAPPING_def catalog_reward_def
  ENGINE_URL_def CHAIN_def HEADERS_def BACKEND_WALLET_def SECRET_def stripQuotes_def

lemmas mock_defs =
  mock_def google_request_def google_receipt_def google_data_def google_data_text_def
  minted_def
  apple_request_def apple_receipt_def apple_info_def apple_payload_def

lemma and_then_Inl [simp]: "and_then (Inl x) f = Inl x"
  by (simp add: and_then_def)

lemma and_then_Inr [simp]: "and_then (Inr v) f = f v"
  by (simp add: and_then_def)

lemma and_then_eq_Inr: "and_then m f = Inr y \<longleftrightarrow> (\<exists>v. m = Inr v \<and> f v = Inr y)"
  by (cases m) simp_all

lemma get_prop_eq_Inr: "get_prop v k = Inr w \<longleftrightarrow> \<not> nullish v \<and> w = read_prop v k"
  by (auto simp: get_prop_def nullish_def)

lemma get_prop_not_nullish: "\<not> nullish v \<Longrightarrow> get_prop v k = Inr (read_prop v k)"
  by (simp add: get_prop_eq_Inr)

text \<open>A verifier makes at most one call, and never one to the minting service.\<close>

lemma verifyAndroidReceipt_calls:
  "verifyAndroidReceipt e r = (res, calls) \<Longrightarrow> filter is_mint calls = [] \<and> length calls \<le> 1"
  by (auto simp: verifyAndroidReceipt_def split: sum.splits prod.splits)

lemma verifyiOSReceipt_calls:
  "verifyiOSReceipt e r = (res, calls) \<Longrightarrow> filter is_mint calls = [] \<and> length calls \<le> 1"
  by (auto simp: verifyiOSReceipt_def Let_def split: sum.splits prod.splits)

lemma validate_receipt_calls:
  "validate_receipt e g a = (res, calls) \<Longrightarrow> filter is_mint calls = [] \<and> length calls \<le> 1"
  using verifyAndroidReceipt_calls verifyiOSReceipt_calls
  by (auto simp: validate_receipt_def split: if_splits)

text \<open>
  A truthy result of the catalog lookup is the catalog's reward or a built-in inherited
  from \<^verbatim>\<open>Object.prototype\<close>.
\<close>

lemma read_REWARD_MAPPING:
  "read_prop (Json REWARD_MAPPING) key =
     (if key = ''100_tokens'' then catalog_reward else inherited key)"
  by (simp add: REWARD_MAPPING_def catalog_reward_def)

lemma truthy_reward_cases:
  assumes "reward_of e r = Inr reward" and "truthy reward"
  shows "reward = catalog_reward \<or> (\<exists>n. reward = Builtin n)"
  using assms
  by (auto simp: reward_of_def and_then_eq_Inr get_prop_eq_Inr read_REWARD_MAPPING inherited_def
      split: if_splits)

lemma found_reward_cases:
  assumes "find_reward e g a = Inr reward" and "truthy reward"
  shows "reward = catalog_reward \<or> (\<exists>n. reward = Builtin n)"
  using assms truthy_reward_cases by (auto simp: find_reward_def split: if_splits)

lemma parse_receipt_not_nullish: "parse_receipt req = Inr ga \<Longrightarrow> \<not> nullish req"
  by (auto simp: parse_receipt_def and_then_eq_Inr get_prop_eq_Inr)

lemma mint_request_reward:
  assumes "\<not> nullish req" and "reward = catalog_reward \<or> (\<exists>n. reward = Builtin n)"
  shows "\<exists>c. to_string (Number_toString e) (read_prop reward ''contract'') = Inr c \<and>
           mint_request e req reward =
             Inr (ENGINE_URL e @ ''/contract/'' @ CHAIN e @ ''/'' @ c @ ''/erc20/mint-to'',
                  \<lparr>toAddress = read_prop req ''toAddress'',
                   amount = read_prop reward ''amount''\<rparr>)"
  using assms
  by (auto simp: mint_request_def get_prop_not_nullish nullish_def catalog_reward_def
      REWARD_MAPPING_def inherited_def Object_prototype_def)

text \<open>Classification, for inner receipt data that can be asked for its own properties.\<close>

lemma call_hasOwnProperty_plain:
  assumes "\<not> nullish rd" and "\<not> has_own rd ''hasOwnProperty''"
  shows "call_hasOwnProperty callee rd k = Inr (has_own rd k)"
proof -
  have "read_prop rd ''hasOwnProperty'' = Builtin ''hasOwnProperty''"
    using assms(2)
  proof (cases rd)
    case (Json j)
    with assms(2) show ?thesis
      by (cases j) (auto simp: inherited_def Object_prototype_def)
  qed (simp_all add: inherited_def Object_prototype_def)
  then show ?thesis
    using assms(1) by (simp add: call_hasOwnProperty_def get_prop_not_nullish)
qed

lemma parse_receipt_classified:
  assumes "get_prop req ''receipt'' = Inr receipt"
    and "get_prop receipt ''receiptData'' = Inr rd"
    and "\<not> nullish rd"
    and "\<not> has_own rd ''hasOwnProperty''"
  shows "parse_receipt req =
           Inr (if has_own rd ''purchaseToken'' then (receipt, Undefined)
                else (Undefined, receipt))"
  using assms by (simp add: parse_receipt_def call_hasOwnProperty_plain)

lemma receipt_with_data_truthy:
  assumes "get_prop receipt ''receiptData'' = Inr rd" and "\<not> nullish rd"
  shows "truthy receipt"
proof (cases receipt)
  case (Json j)
  with assms show ?thesis
    by (cases j) (auto simp: get_prop_eq_Inr nullish_def inherited_def Object_prototype_def)
qed (use assms in \<open>auto simp: get_prop_eq_Inr nullish_def inherited_def Object_prototype_def\<close>)

lemma approve_mint_responds:
  "\<exists>status body calls. approve_mint e req reward = (Responded status body, calls) \<and>
     status \<in> {200, 400}"
  by (auto simp: approve_mint_def split: sum.splits prod.splits)

text \<open>The verifiers once the store has answered the query.\<close>

lemma android_query_Inr:
  assumes "get_prop receipt ''receiptData'' = Inr rd" and "\<not> nullish rd"
  shows "android_query receipt =
           Inr (read_prop rd ''packageName'', read_prop rd ''productID'',
                read_prop rd ''purchaseToken'')"
  using assms by (simp add: android_query_def get_prop_not_nullish)

lemma verifyAndroidReceipt_answered:
  assumes "get_prop receipt ''receiptData'' = Inr rd" and "\<not> nullish rd"
    and "purchases_products_get e (read_prop rd ''packageName'') (read_prop rd ''productID'')
           (read_prop rd ''purchaseToken'') = Inr data"
  shows "fst (verifyAndroidReceipt e receipt) = android_checks e receipt data"
  using assms by (simp add: verifyAndroidReceipt_def android_query_Inr)

lemma verifyiOSReceipt_answered:
  assumes "readFile e ''subscription-key.p8'' = Inr pem"
    and "get_prop receipt ''receiptData'' = Inr rd" and "\<not> nullish rd"
    and "getTransactionInfo e
           \<lparr>signingKey = pem, keyId = stripQuotes (APPLE_APP_STORE_KEY_ID e),
            issuerId = stripQuotes (APPLE_APP_STORE_ISSUER_ID e),
            bundleId = stripQuotes (APPLE_APP_STORE_BUNDLE_ID e)\<rparr>
           (read_prop rd ''transactionID'') = Inr info"
  shows "fst (verifyiOSReceipt e receipt) = apple_checks e receipt info"
  using assms by (simp add: verifyiOSReceipt_def get_prop_not_nullish)

lemma apple_checks_decoded:
  assumes "get_prop receipt ''receiptData'' = Inr rd" and "\<not> nullish rd"
    and "truthy info" and "truthy (read_prop info ''signedTransactionInfo'')"
    and "second_segment (read_prop info ''signedTransactionInfo'') = Inr segment"
    and "decode_payload e segment = Inr payload" and "payload \<noteq> JNull"
  shows "apple_checks e receipt info =
           (if \<not> strict_eq (read_prop (Json payload) ''productId'') (read_prop rd ''productID'')
            then Inl (Error ''Invalid product ID'')
            else if \<not> strict_eq (read_prop (Json payload) ''quantity'') (read_prop rd ''quantity'')
            then Inl (Error ''Invalid quantity'')
            else and_then (new_Date (Number_toString e) (Date_parse e)
                             (read_prop (Json payload) ''purchaseDate''))
                   (\<lambda>purchaseDate.
                      if date_less purchaseDate (earliestOkDate e)
                      then Inl (Error ''Purchase time is too old'') else Inr ()))"
proof -
  have "\<not> nullish (Json payload)"
    using assms(7) by (simp add: nullish_def)
  then have p: "get_prop (Json payload) k = Inr (read_prop (Json payload) k)" for k
    by (rule get_prop_not_nullish)
  have r: "get_prop rd k = Inr (read_prop rd k)" for k
    using assms(2) by (rule get_prop_not_nullish)
  show ?thesis
    using assms(1,3-6) by (simp add: apple_checks_def p r)
qed

text \<open>The receipts of the test doubles carry inner receipt data.\<close>

lemma google_receipt_data:
  "get_prop (Json (google_receipt p)) ''receiptData'' =
     Inr (read_prop (Json (google_receipt p)) ''receiptData'')"
  "\<not> nullish (read_prop (Json (google_receipt p)) ''receiptData'')"
  by (simp_all add: get_prop_def nullish_def google_receipt_def)

lemma apple_receipt_data:
  "get_prop (Json (apple_receipt q c)) ''receiptData'' =
     Inr (read_prop (Json (apple_receipt q c)) ''receiptData'')"
  "\<not> nullish (read_prop (Json (apple_receipt q c)) ''receiptData'')"
  by (simp_all add: get_prop_def nullish_def apple_receipt_def)

text \<open>The purchase time check on a timestamp in whole milliseconds.\<close>

lemma TimeClip_of_int:
  "\<bar>real_of_int t\<bar> \<le> 8640000000000000 \<Longrightarrow> TimeClip (real_of_int t) = Some t"
  by (simp add: TimeClip_def)

lemma earliestOkDate_valid:
  assumes "\<bar>real_of_int (Date_now e) - 300000\<bar> \<le> 8640000000000000"
  shows "earliestOkDate e = Some (Date_now e - 300000)"
proof -
  have "real_of_int (Date_now e) - 5 * 60 * 1000 = real_of_int (Date_now e - 300000)"
    by simp
  then show ?thesis
    using assms TimeClip_of_int[of "Date_now e - 300000"]
    by (simp add: earliestOkDate_def)
qed

lemma too_old_iff:
  assumes "\<bar>real_of_int (Date_now e) - 300000\<bar> \<le> 8640000000000000"
    and "\<bar>real_of_int t\<bar> \<le> 8640000000000000"
  shows "and_then (new_Date (Number_toString e) (Date_parse e) (Json (JNum (real_of_int t))))
           (\<lambda>purchaseDate.
              if date_less purchaseDate (earliestOkDate e)
              then Inl (Error ''Purchase time is too old'') else Inr ()) =
         (if t < Date_now e - 300000 then Inl (Error ''Purchase time is too old'') else Inr ())"
  using assms by (simp add: earliestOkDate_valid TimeClip_of_int)

section \<open>Receipts that fail verification\<close>

text \<open>
  C1. When the verifier that matches the receipt throws, whichever of the two it is and
  whatever it throws, \<^verbatim>\<open>validate\<close> answers 401 with the message
  \<^verbatim>\<open>Unable to validate receipt: \<close> followed by the message of what was thrown, and the
  calls of the request are those of the verifier: none goes to the minting service.
\<close>

theorem receipt_invalid_401:
  assumes "parse_receipt req = Inr (g, a)"
    and "find_reward e g a = Inr reward"
    and "truthy reward"
    and "validate_receipt e g a = (Inl x, calls)"
  shows "validate e req =
           (Responded 401
              (Json (JObj [(''message'',
                 JStr (''Unable to validate receipt: '' @
                       (case error_message x of None \<Rightarrow> ''undefined'' | Some m \<Rightarrow> m)))])),
            calls)
         \<and> filter is_mint calls = []"
  using assms validate_receipt_calls[OF assms(4)]
  by (simp add: validate_def message_body_def receipt_message_def)

theorem receipt_invalid_401_witness:
  "validate (mock 1700000000000 (Inr (google_data 1 1700000000000 ''ord1'')) (Inl Thrown)
             (Inl Thrown) (Inr minted)) (google_request ''100_tokens'') =
     (Responded 401
        (Json (JObj [(''message'', JStr ''Unable to validate receipt: Invalid purchase state'')])),
      [GoogleQuery (Json (JStr ''com.x'')) (Json (JStr ''100_tokens'')) (Json (JStr ''tok1''))])
   \<and> validate (mock 1700000000000 (Inl Thrown) (Inr apple_info)
             (Inr (apple_payload ''other'' 1 1700000000000)) (Inr minted))
         (apple_request 1 []) =
     (Responded 401
        (Json (JObj [(''message'', JStr ''Unable to validate receipt: Invalid product ID'')])),
      [AppleQuery (Json (JStr ''t1''))])"
proof -
  let ?e = "mock 1700000000000 (Inr (google_data 1 1700000000000 ''ord1'')) (Inl Thrown)
             (Inl Thrown) (Inr minted)"
  let ?g = "Json (google_receipt ''100_tokens'')"
  have p: "parse_receipt (google_request ''100_tokens'') = Inr (?g, Undefined)"
    by (simp add: model_defs mock_defs)
  have f: "find_reward ?e ?g Undefined = Inr catalog_reward"
    by (simp add: model_defs mock_defs)
  have t: "truthy catalog_reward"
    by (simp add: model_defs)
  have v: "validate_receipt ?e ?g Undefined =
      (Inl (Error ''Invalid purchase state''),
       [GoogleQuery (Json (JStr ''com.x'')) (Json (JStr ''100_tokens'')) (Json (JStr ''tok1''))])"
    by (simp add: model_defs mock_defs)
  let ?e' = "mock 1700000000000 (Inl Thrown) (Inr apple_info)
             (Inr (apple_payload ''other'' 1 1700000000000)) (Inr minted)"
  let ?a = "Json (apple_receipt 1 [])"
  have p': "parse_receipt (apple_request 1 []) = Inr (Undefined, ?a)"
    by (simp add: model_defs mock_defs)
  have f': "find_reward ?e' Undefined ?a = Inr catalog_reward"
    by (simp add: model_defs mock_defs)
  have v': "validate_receipt ?e' Undefined ?a =
      (Inl (Error ''Invalid product ID''), [AppleQuery (Json (JStr ''t1''))])"
    by (simp add: model_defs mock_defs)
  from receipt_invalid_401[OF p f t v] receipt_invalid_401[OF p' f' t v']
  show ?thesis by simp
qed

section \<open>Receipts that pass verification\<close>

text \<open>
  When the matching verifier accepts the receipt, \<^verbatim>\<open>validate\<close> posts to the
  minting service exactly once, after the verifier's calls: the URL names the
  \<^verbatim>\<open>contract\<close> of whatever the catalog lookup returned, the body carries the
  \<^verbatim>\<open>toAddress\<close> of the request and the \<^verbatim>\<open>amount\<close> of what was looked up.
  When the post succeeds, the response is 200 and its body is the data the minting service
  returned.
\<close>

lemma verified_receipt_mints_once:
  assumes "parse_receipt req = Inr (g, a)"
    and "find_reward e g a = Inr reward"
    and "truthy reward"
    and "validate_receipt e g a = (Inr u, calls)"
  shows "\<exists>c url body.
           to_string (Number_toString e) (read_prop reward ''contract'') = Inr c
         \<and> url = ENGINE_URL e @ ''/contract/'' @ CHAIN e @ ''/'' @ c @ ''/erc20/mint-to''
         \<and> body = \<lparr>toAddress = read_prop req ''toAddress'', amount = read_prop reward ''amount''\<rparr>
         \<and> snd (validate e req) = calls @ [MintPost url body (HEADERS e)]
         \<and> filter is_mint (snd (validate e req)) = [MintPost url body (HEADERS e)]
         \<and> (\<forall>data. axios_post e url body (HEADERS e) = Inr data \<longrightarrow>
                fst (validate e req) = Responded 200 data)"
proof -
  from mint_request_reward[OF parse_receipt_not_nullish[OF assms(1)]
      found_reward_cases[OF assms(2,3)], of e]
  obtain c where c: "to_string (Number_toString e) (read_prop reward ''contract'') = Inr c"
    and m: "mint_request e req reward =
             Inr (ENGINE_URL e @ ''/contract/'' @ CHAIN e @ ''/'' @ c @ ''/erc20/mint-to'',
                  \<lparr>toAddress = read_prop req ''toAddress'',
                   amount = read_prop reward ''amount''\<rparr>)"
    by blast
  have n: "filter is_mint calls = []"
    using validate_receipt_calls[OF assms(4)] by simp
  show ?thesis
    using assms c m n
    by (auto simp: validate_def approve_mint_def split: sum.splits)
qed

text \<open>
  For the product of the catalog: the one post goes to the catalog's contract with the
  catalog's amount 100 and the \<^verbatim>\<open>toAddress\<close> of the request, and a successful post
  is answered 200 with the data of the minting service.
\<close>

theorem catalog_reward_minted_once:
  assumes "parse_receipt req = Inr (g, a)"
    and "find_reward e g a = Inr catalog_reward"
    and "validate_receipt e g a = (Inr u, calls)"
  shows "snd (validate e req) =
           calls @
           [MintPost
              (ENGINE_URL e @ ''/contract/'' @ CHAIN e @
               ''/0x33D1a021aFbE0CFB0AC7CcB7c5A247777b3e7c50/erc20/mint-to'')
              \<lparr>toAddress = read_prop req ''toAddress'', amount = Json (JStr ''100'')\<rparr>
              (HEADERS e)]
       \<and> filter is_mint (snd (validate e req)) =
           [MintPost
              (ENGINE_URL e @ ''/contract/'' @ CHAIN e @
               ''/0x33D1a021aFbE0CFB0AC7CcB7c5A247777b3e7c50/erc20/mint-to'')
              \<lparr>toAddress = read_prop req ''toAddress'', amount = Json (JStr ''100'')\<rparr>
              (HEADERS e)]
       \<and> (\<forall>data.
             axios_post e
               (ENGINE_URL e @ ''/contract/'' @ CHAIN e @
                ''/0x33D1a021aFbE0CFB0AC7CcB7c5A247777b3e7c50/erc20/mint-to'')
               \<lparr>toAddress = read_prop req ''toAddress'', amount = Json (JStr ''100'')\<rparr>
               (HEADERS e) = Inr data \<longrightarrow>
             fst (validate e req) = Responded 200 data)"
proof -
  have t: "truthy catalog_reward"
    by (simp add: catalog_reward_def REWARD_MAPPING_def)
  have m: "mint_request e req catalog_reward =
      Inr (ENGINE_URL e @ ''/contract/'' @ CHAIN e @
             ''/0x33D1a021aFbE0CFB0AC7CcB7c5A247777b3e7c50/erc20/mint-to'',
           \<lparr>toAddress = read_prop req ''toAddress'', amount = Json (JStr ''100'')\<rparr>)"
    using parse_receipt_not_nullish[OF assms(1)]
    by (simp add: mint_request_def get_prop_def nullish_def catalog_reward_def
        REWARD_MAPPING_def)
  have n: "filter is_mint calls = []"
    using validate_receipt_calls[OF assms(3)] by simp
  show ?thesis
    using assms t m n
    by (auto simp: validate_def approve_mint_def split: sum.splits)
qed

theorem catalog_reward_minted_once_witness:
  "validate (mock 1700000000000 (Inr (google_data 0 1700000000000 ''ord1'')) (Inl Thrown)
             (Inl Thrown) (Inr minted)) (google_request ''100_tokens'') =
     (Responded 200 minted,
      [GoogleQuery (Json (JStr ''com.x'')) (Json (JStr ''100_tokens'')) (Json (JStr ''tok1'')),
       MintPost
         ''https://engine.test/contract/137/0x33D1a021aFbE0CFB0AC7CcB7c5A247777b3e7c50/erc20/mint-to''
         \<lparr>toAddress = Json (JStr ''0xABC''), amount = Json (JStr ''100'')\<rparr>
         [(''x-backend-wallet-address'', ''0xWALLET''), (''Authorization'', ''Bearer secret'')]])"
proof -
  let ?e = "mock 1700000000000 (Inr (google_data 0 1700000000000 ''ord1'')) (Inl Thrown)
             (Inl Thrown) (Inr minted)"
  let ?req = "google_request ''100_tokens''"
  let ?g = "Json (google_receipt ''100_tokens'')"
  let ?q = "GoogleQuery (Json (JStr ''com.x'')) (Json (JStr ''100_tokens'')) (Json (JStr ''tok1''))"
  have p: "parse_receipt ?req = Inr (?g, Undefined)"
    by (simp add: model_defs mock_defs)
  have f: "find_reward ?e ?g Undefined = Inr catalog_reward"
    by (simp add: model_defs mock_defs)
  have v: "validate_receipt ?e ?g Undefined = (Inr (), [?q])"
    by (simp add: model_defs mock_defs)
  note c = catalog_reward_minted_once[OF p f v]
  have x: "axios_post ?e url body hs = Inr minted" for url body hs
    by (simp add: mock_def)
  from c x have r: "fst (validate ?e ?req) = Responded 200 minted"
    by blast
  have "validate ?e ?req = (fst (validate ?e ?req), snd (validate ?e ?req))"
    by simp
  then show ?thesis
    unfolding r c[THEN conjunct1]
    by (simp add: model_defs mock_defs)
qed

text \<open>
  C7 at the product ID \<^verbatim>\<open>valueOf\<close>. The catalog has no such entry, but the lookup
  finds the function every object inherits under that name. When the store confirms the
  purchase, the one post to the minting service names the contract \<^verbatim>\<open>undefined\<close>
  and carries no amount: not an amount of the catalog.
\<close>

theorem inherited_reward_is_minted:
  "validate
     (mock 1700000000000 (Inr (google_data 0 1700000000000 ''ord1'')) (Inl Thrown)
        (Inl Thrown) (Inr minted))
     (google_request ''valueOf'') =
   (Responded 200 minted,
    [GoogleQuery (Json (JStr ''com.x'')) (Json (JStr ''valueOf'')) (Json (JStr ''tok1'')),
     MintPost ''https://engine.test/contract/137/undefined/erc20/mint-to''
       \<lparr>toAddress = Json (JStr ''0xABC''), amount = Undefined\<rparr>
       [(''x-backend-wallet-address'', ''0xWALLET''), (''Authorization'', ''Bearer secret'')]])
   \<and> \<not> has_own (Json REWARD_MAPPING) ''valueOf''"
  by (simp add: model_defs mock_defs)

text \<open>
  C8. When the matching verifier accepts the receipt and the post to the minting service
  throws, \<^verbatim>\<open>validate\<close> answers 400 with the message
  \<^verbatim>\<open>Unable to sign payload.\<close>, which differs from every 401 response to an invalid
  receipt, and the post was made once: it is not repeated.
\<close>

theorem mint_failure_400:
  assumes "parse_receipt req = Inr (g, a)"
    and "find_reward e g a = Inr reward"
    and "truthy reward"
    and "validate_receipt e g a = (Inr u, calls)"
    and "mint_request e req reward = Inr (url, body)"
    and "axios_post e url body (HEADERS e) = Inl x"
  shows "validate e req =
           (Responded 400 (Json (JObj [(''message'', JStr ''Unable to sign payload.'')])),
            calls @ [MintPost url body (HEADERS e)])
         \<and> filter is_mint (calls @ [MintPost url body (HEADERS e)]) =
             [MintPost url body (HEADERS e)]
         \<and> (\<forall>y. Responded 400 (Json (JObj [(''message'', JStr ''Unable to sign payload.'')])) \<noteq>
                 Responded 401 (message_body (receipt_message y)))"
  using assms validate_receipt_calls[OF assms(4)]
  by (simp add: validate_def approve_mint_def message_body_def)

theorem mint_failure_400_witness:
  "validate (mock 1700000000000 (Inr (google_data 0 1700000000000 ''ord1'')) (Inl Thrown)
             (Inl Thrown) (Inl (Error ''Request failed with status code 500'')))
      (google_request ''100_tokens'') =
     (Responded 400 (Json (JObj [(''message'', JStr ''Unable to sign payload.'')])),
      [GoogleQuery (Json (JStr ''com.x'')) (Json (JStr ''100_tokens'')) (Json (JStr ''tok1'')),
       MintPost
         ''https://engine.test/contract/137/0x33D1a021aFbE0CFB0AC7CcB7c5A247777b3e7c50/erc20/mint-to''
         \<lparr>toAddress = Json (JStr ''0xABC''), amount = Json (JStr ''100'')\<rparr>
         [(''x-backend-wallet-address'', ''0xWALLET''), (''Authorization'', ''Bearer secret'')]])"
proof -
  let ?e = "mock 1700000000000 (Inr (google_data 0 1700000000000 ''ord1'')) (Inl Thrown)
             (Inl Thrown) (Inl (Error ''Request failed with status code 500''))"
  let ?req = "google_request ''100_tokens''"
  let ?g = "Json (google_receipt ''100_tokens'')"
  let ?q = "GoogleQuery (Json (JStr ''com.x'')) (Json (JStr ''100_tokens'')) (Json (JStr ''tok1''))"
  let ?url = "''https://engine.test/contract/137/0x33D1a021aFbE0CFB0AC7CcB7c5A247777b3e7c50/erc20/mint-to''"
  let ?body = "\<lparr>toAddress = Json (JStr ''0xABC''), amount = Json (JStr ''100'')\<rparr>"
  have p: "parse_receipt ?req = Inr (?g, Undefined)"
    by (simp add: model_defs mock_defs)
  have f: "find_reward ?e ?g Undefined = Inr catalog_reward"
    by (simp add: model_defs mock_defs)
  have t: "truthy catalog_reward"
    by (simp add: model_defs)
  have v: "validate_receipt ?e ?g Undefined = (Inr (), [?q])"
    by (simp add: model_defs mock_defs)
  have m: "mint_request ?e ?req catalog_reward = Inr (?url, ?body)"
    by (simp add: model_defs mock_defs)
  have x: "axios_post ?e ?url ?body (HEADERS ?e) =
             Inl (Error ''Request failed with status code 500'')"
    by (simp add: mock_def)
  from mint_failure_400[OF p f t v m x] show ?thesis
    by (simp add: model_defs mock_defs)
qed

section \<open>Classification of the receipt\<close>

text \<open>
  C3, as amended. When the request carries a receipt whose inner receipt data is neither
  \<^verbatim>\<open>undefined\<close> nor \<^verbatim>\<open>null\<close> and has no own property named
  \<^verbatim>\<open>hasOwnProperty\<close>, the classification depends on one thing only: the receipt is
  the Google receipt when the inner receipt data has an own property
  \<^verbatim>\<open>purchaseToken\<close>, and the Apple receipt otherwise, whatever other fields are
  there or missing.
\<close>

theorem classification_by_purchaseToken:
  assumes "get_prop req ''receipt'' = Inr receipt"
    and "get_prop receipt ''receiptData'' = Inr rd"
    and "\<not> nullish rd"
    and "\<not> has_own rd ''hasOwnProperty''"
  shows "parse_receipt req =
           Inr (if has_own rd ''purchaseToken'' then (receipt, Undefined)
                else (Undefined, receipt))"
  using assms by (rule parse_receipt_classified)

theorem classification_by_purchaseToken_witness:
  "parse_receipt (google_request ''100_tokens'') =
     Inr (Json (google_receipt ''100_tokens''), Undefined)
   \<and> parse_receipt (apple_request 1 []) = Inr (Undefined, Json (apple_receipt 1 []))
   \<and> parse_receipt (Json (JObj [(''receipt'', JObj [(''receiptData'', JObj [])])])) =
       Inr (Undefined, Json (JObj [(''receiptData'', JObj [])]))"
proof -
  have g: "get_prop (google_request ''100_tokens'') ''receipt'' =
             Inr (Json (google_receipt ''100_tokens''))"
    by (simp add: model_defs mock_defs)
  have gd: "get_prop (Json (google_receipt ''100_tokens'')) ''receiptData'' =
              Inr (read_prop (Json (google_receipt ''100_tokens'')) ''receiptData'')"
    by (simp add: model_defs mock_defs)
  have gn: "\<not> nullish (read_prop (Json (google_receipt ''100_tokens'')) ''receiptData'')"
    by (simp add: nullish_def mock_defs)
  have gh: "\<not> has_own (read_prop (Json (google_receipt ''100_tokens'')) ''receiptData'')
               ''hasOwnProperty''"
    by (simp add: mock_defs)
  have a: "get_prop (apple_request 1 []) ''receipt'' = Inr (Json (apple_receipt 1 []))"
    by (simp add: model_defs mock_defs)
  have ad: "get_prop (Json (apple_receipt 1 [])) ''receiptData'' =
              Inr (read_prop (Json (apple_receipt 1 [])) ''receiptData'')"
    by (simp add: model_defs mock_defs)
  have an: "\<not> nullish (read_prop (Json (apple_receipt 1 [])) ''receiptData'')"
    by (simp add: nullish_def mock_defs)
  have ah: "\<not> has_own (read_prop (Json (apple_receipt 1 [])) ''receiptData'') ''hasOwnProperty''"
    by (simp add: mock_defs)
  have m: "get_prop (Json (JObj [(''receipt'', JObj [(''receiptData'', JObj [])])])) ''receipt'' =
             Inr (Json (JObj [(''receiptData'', JObj [])]))"
    by (simp add: model_defs)
  have md: "get_prop (Json (JObj [(''receiptData'', JObj [])])) ''receiptData'' =
              Inr (Json (JObj []))"
    by (simp add: model_defs)
  have mn: "\<not> nullish (Json (JObj []))"
    by (simp add: nullish_def)
  have mh: "\<not> has_own (Json (JObj [])) ''hasOwnProperty''"
    by simp
  from classification_by_purchaseToken[OF g gd gn gh]
    classification_by_purchaseToken[OF a ad an ah]
    classification_by_purchaseToken[OF m md mn mh]
  show ?thesis
    by (simp add: mock_defs)
qed

text \<open>
  A receipt without inner receipt data is not classified as Apple: the test for
  \<^verbatim>\<open>purchaseToken\<close> throws.
\<close>

theorem classification_missing_receiptData:
  "parse_receipt (Json (JObj [(''receipt'', JObj []), (''toAddress'', JStr ''0xABC'')])) =
     Inl (TypeError (''Cannot read properties of undefined (reading '' @
                     quoted ''hasOwnProperty'' @ '')''))"
  by (simp add: model_defs)

section \<open>The order of the checks\<close>

text \<open>
  Once the Google query has returned data, the verifier fails with
  \<^verbatim>\<open>Invalid purchase state\<close> whenever the purchase state is not 0, whatever the time
  and the order ID are; with the state 0 it fails with \<^verbatim>\<open>Purchase time is too old\<close>
  when the date constructed from \<^verbatim>\<open>purchaseTimeMillis\<close> is a valid date before the
  earliest accepted one, whatever the order ID is; with the state 0 and no such date it
  fails with \<^verbatim>\<open>Invalid order ID\<close> when the order ID returned differs from the one
  claimed. The three reasons are distinct.
\<close>

theorem google_checks_in_order:
  assumes "get_prop receipt ''receiptData'' = Inr rd" and "\<not> nullish rd"
    and "purchases_products_get e (read_prop rd ''packageName'') (read_prop rd ''productID'')
           (read_prop rd ''purchaseToken'') = Inr data"
    and "\<not> nullish data"
  shows "(\<not> strict_eq (read_prop data ''purchaseState'') (Json (JNum 0)) \<longrightarrow>
            fst (verifyAndroidReceipt e receipt) = Inl (Error ''Invalid purchase state''))
       \<and> (strict_eq (read_prop data ''purchaseState'') (Json (JNum 0)) \<and>
          new_Date (Number_toString e) (Date_parse e) (read_prop data ''purchaseTimeMillis'') =
            Inr purchaseDate \<and>
          date_less purchaseDate (earliestOkDate e) \<longrightarrow>
            fst (verifyAndroidReceipt e receipt) = Inl (Error ''Purchase time is too old''))
       \<and> (strict_eq (read_prop data ''purchaseState'') (Json (JNum 0)) \<and>
          new_Date (Number_toString e) (Date_parse e) (read_prop data ''purchaseTimeMillis'') =
            Inr purchaseDate \<and>
          \<not> date_less purchaseDate (earliestOkDate e) \<and>
          \<not> strict_eq (read_prop data ''orderId'') (read_prop rd ''orderID'') \<longrightarrow>
            fst (verifyAndroidReceipt e receipt) = Inl (Error ''Invalid order ID''))
       \<and> distinct [''Invalid purchase state'', ''Purchase time is too old'', ''Invalid order ID'']"
  using assms verifyAndroidReceipt_answered[OF assms(1-3)]
  by (simp add: android_checks_def get_prop_not_nullish)

theorem google_checks_in_order_witness:
  "fst (verifyAndroidReceipt
          (mock 1700000000000 (Inr (google_data 1 1700000000000 ''other'')) (Inl Thrown)
             (Inl Thrown) (Inr minted))
          (Json (google_receipt ''100_tokens''))) = Inl (Error ''Invalid purchase state'')
   \<and> fst (verifyAndroidReceipt
          (mock 1700000000000 (Inr (google_data 0 1699999699000 ''other'')) (Inl Thrown)
             (Inl Thrown) (Inr minted))
          (Json (google_receipt ''100_tokens''))) = Inl (Error ''Purchase time is too old'')
   \<and> fst (verifyAndroidReceipt
          (mock 1700000000000 (Inr (google_data 0 1700000000000 ''other'')) (Inl Thrown)
             (Inl Thrown) (Inr minted))
          (Json (google_receipt ''100_tokens''))) = Inl (Error ''Invalid order ID'')"
proof -
  let ?r = "Json (google_receipt ''100_tokens'')"
  have q: "purchases_products_get (mock now (Inr d) a p m) x y z = Inr d" for now d a p m x y z
    by (simp add: mock_def)
  have n: "\<not> nullish (google_data s t ord)" for s t ord
    by (simp add: nullish_def google_data_def)
  from google_checks_in_order[where purchaseDate = "Some 1700000000000", OF google_receipt_data q n]
  have 1: "fst (verifyAndroidReceipt
          (mock 1700000000000 (Inr (google_data 1 1700000000000 ''other'')) (Inl Thrown)
             (Inl Thrown) (Inr minted)) ?r) = Inl (Error ''Invalid purchase state'')"
    by (simp add: model_defs mock_defs)
  from google_checks_in_order[where purchaseDate = "Some 1699999699000", OF google_receipt_data q n]
  have 2: "fst (verifyAndroidReceipt
          (mock 1700000000000 (Inr (google_data 0 1699999699000 ''other'')) (Inl Thrown)
             (Inl Thrown) (Inr minted)) ?r) = Inl (Error ''Purchase time is too old'')"
    by (simp add: model_defs mock_defs)
  from google_checks_in_order[where purchaseDate = "Some 1700000000000", OF google_receipt_data q n]
  have 3: "fst (verifyAndroidReceipt
          (mock 1700000000000 (Inr (google_data 0 1700000000000 ''other'')) (Inl Thrown)
             (Inl Thrown) (Inr minted)) ?r) = Inl (Error ''Invalid order ID'')"
    by (simp add: model_defs mock_defs)
  from 1 2 3 show ?thesis by simp
qed

text \<open>
  C4 at a purchase three years old. The Google client returns the purchase time as a
  string of digits; the date constructed from it is invalid, the comparison with the
  earliest accepted date is false, and the second check never fails: the verifier goes on
  to the order ID and rejects for that reason, not for the age of the purchase.
\<close>

theorem stale_google_purchase_reaches_order_check:
  "verifyAndroidReceipt
     (mock 1700000000000 (Inr (google_data_text 0 ''1600000000000'' ''other'')) (Inl Thrown)
        (Inl Thrown) (Inr minted))
     (Json (google_receipt ''100_tokens'')) =
   (Inl (Error ''Invalid order ID''),
    [GoogleQuery (Json (JStr ''com.x'')) (Json (JStr ''100_tokens'')) (Json (JStr ''tok1''))])
   \<and> (1600000000000::int) < 1700000000000 - 5 * 60 * 1000"
  by (simp add: model_defs mock_defs google_data_text_def)

text \<open>
  C5. Once the Apple query has returned, the verifier fails with
  \<^verbatim>\<open>Transaction not found\<close> when there is no transaction info or no signed
  transaction info in it. When the payload has been decoded, it fails with
  \<^verbatim>\<open>Invalid product ID\<close> whenever the decoded product differs from the claimed one,
  whatever the other fields are; with the products equal it fails with
  \<^verbatim>\<open>Invalid quantity\<close> when the quantities differ; with both equal the outcome is
  that of the purchase time check. The four reasons are distinct.
\<close>

theorem apple_checks_in_order:
  assumes "readFile e ''subscription-key.p8'' = Inr pem"
    and "get_prop receipt ''receiptData'' = Inr rd" and "\<not> nullish rd"
    and "getTransactionInfo e
           \<lparr>signingKey = pem, keyId = stripQuotes (APPLE_APP_STORE_KEY_ID e),
            issuerId = stripQuotes (APPLE_APP_STORE_ISSUER_ID e),
            bundleId = stripQuotes (APPLE_APP_STORE_BUNDLE_ID e)\<rparr>
           (read_prop rd ''transactionID'') = Inr info"
  shows "(\<not> truthy info \<or> \<not> truthy (read_prop info ''signedTransactionInfo'') \<longrightarrow>
            fst (verifyiOSReceipt e receipt) = Inl (Error ''Transaction not found''))
       \<and> (truthy info \<and> truthy (read_prop info ''signedTransactionInfo'') \<and>
          second_segment (read_prop info ''signedTransactionInfo'') = Inr segment \<and>
          decode_payload e segment = Inr payload \<and> payload \<noteq> JNull \<longrightarrow>
            (\<not> strict_eq (read_prop (Json payload) ''productId'') (read_prop rd ''productID'') \<longrightarrow>
               fst (verifyiOSReceipt e receipt) = Inl (Error ''Invalid product ID''))
          \<and> (strict_eq (read_prop (Json payload) ''productId'') (read_prop rd ''productID'') \<and>
             \<not> strict_eq (read_prop (Json payload) ''quantity'') (read_prop rd ''quantity'') \<longrightarrow>
               fst (verifyiOSReceipt e receipt) = Inl (Error ''Invalid quantity''))
          \<and> (strict_eq (read_prop (Json payload) ''productId'') (read_prop rd ''productID'') \<and>
             strict_eq (read_prop (Json payload) ''quantity'') (read_prop rd ''quantity'') \<and>
             new_Date (Number_toString e) (Date_parse e)
               (read_prop (Json payload) ''purchaseDate'') = Inr purchaseDate \<longrightarrow>
               fst (verifyiOSReceipt e receipt) =
                 (if date_less purchaseDate (earliestOkDate e)
                  then Inl (Error ''Purchase time is too old'') else Inr ())))
       \<and> distinct [''Transaction not found'', ''Invalid product ID'', ''Invalid quantity'',
                   ''Purchase time is too old'']"
proof -
  note v = verifyiOSReceipt_answered[OF assms]
  have a: "\<not> truthy info \<or> \<not> truthy (read_prop info ''signedTransactionInfo'') \<Longrightarrow>
      fst (verifyiOSReceipt e receipt) = Inl (Error ''Transaction not found'')"
    unfolding v by (auto simp: apple_checks_def)
  have b: "fst (verifyiOSReceipt e receipt) =
           (if \<not> strict_eq (read_prop (Json payload) ''productId'') (read_prop rd ''productID'')
            then Inl (Error ''Invalid product ID'')
            else if \<not> strict_eq (read_prop (Json payload) ''quantity'') (read_prop rd ''quantity'')
            then Inl (Error ''Invalid quantity'')
            else and_then (new_Date (Number_toString e) (Date_parse e)
                             (read_prop (Json payload) ''purchaseDate''))
                   (\<lambda>purchaseDate.
                      if date_less purchaseDate (earliestOkDate e)
                      then Inl (Error ''Purchase time is too old'') else Inr ()))"
    if "truthy info" "truthy (read_prop info ''signedTransactionInfo'')"
      "second_segment (read_prop info ''signedTransactionInfo'') = Inr segment"
      "decode_payload e segment = Inr payload" "payload \<noteq> JNull"
    unfolding v using apple_checks_decoded[OF assms(2,3) that] .
  show ?thesis
    using a b by (simp (no_asm_simp))
qed

theorem apple_checks_in_order_witness:
  "fst (verifyiOSReceipt
          (mock 1700000000000 (Inl Thrown) (Inr (Json (JObj [])))
             (Inr (apple_payload ''100_tokens'' 1 1700000000000)) (Inr minted))
          (Json (apple_receipt 1 []))) = Inl (Error ''Transaction not found'')
   \<and> fst (verifyiOSReceipt
          (mock 1700000000000 (Inl Thrown) (Inr apple_info)
             (Inr (apple_payload ''other'' 1 1700000000000)) (Inr minted))
          (Json (apple_receipt 1 []))) = Inl (Error ''Invalid product ID'')
   \<and> fst (verifyiOSReceipt
          (mock 1700000000000 (Inl Thrown) (Inr apple_info)
             (Inr (apple_payload ''100_tokens'' 2 1700000000000)) (Inr minted))
          (Json (apple_receipt 1 []))) = Inl (Error ''Invalid quantity'')
   \<and> fst (verifyiOSReceipt
          (mock 1700000000000 (Inl Thrown) (Inr apple_info)
             (Inr (apple_payload ''100_tokens'' 1 1699999699000)) (Inr minted))
          (Json (apple_receipt 1 []))) = Inl (Error ''Purchase time is too old'')
   \<and> fst (verifyiOSReceipt
          (mock 1700000000000 (Inl Thrown) (Inr apple_info)
             (Inr (apple_payload ''100_tokens'' 1 1700000000000)) (Inr minted))
          (Json (apple_receipt 1 []))) = Inr ()"
proof -
  let ?r = "Json (apple_receipt 1 [])"
  have k: "readFile (mock now g a p m) ''subscription-key.p8'' = Inr ''p8''" for now g a p m
    by (simp add: mock_def)
  have q: "getTransactionInfo (mock now g (Inr i) p m) c t = Inr i" for now g i p m c t
    by (simp add: mock_def)
  from apple_checks_in_order[OF k apple_receipt_data q]
  have 1: "fst (verifyiOSReceipt
          (mock 1700000000000 (Inl Thrown) (Inr (Json (JObj [])))
             (Inr (apple_payload ''100_tokens'' 1 1700000000000)) (Inr minted)) ?r) =
        Inl (Error ''Transaction not found'')"
    by (simp add: inherited_def Object_prototype_def)
  from apple_checks_in_order[where segment = "Some ''payload''"
      and payload = "apple_payload ''other'' 1 1700000000000"
      and purchaseDate = "Some 1700000000000", OF k apple_receipt_data q]
  have 2: "fst (verifyiOSReceipt
          (mock 1700000000000 (Inl Thrown) (Inr apple_info)
             (Inr (apple_payload ''other'' 1 1700000000000)) (Inr minted)) ?r) =
        Inl (Error ''Invalid product ID'')"
    by (simp add: model_defs mock_defs)
  from apple_checks_in_order[where segment = "Some ''payload''"
      and payload = "apple_payload ''100_tokens'' 2 1700000000000"
      and purchaseDate = "Some 1700000000000", OF k apple_receipt_data q]
  have 3: "fst (verifyiOSReceipt
          (mock 1700000000000 (Inl Thrown) (Inr apple_info)
             (Inr (apple_payload ''100_tokens'' 2 1700000000000)) (Inr minted)) ?r) =
        Inl (Error ''Invalid quantity'')"
    by (simp add: model_defs mock_defs)
  from apple_checks_in_order[where segment = "Some ''payload''"
      and payload = "apple_payload ''100_tokens'' 1 1699999699000"
      and purchaseDate = "Some 1699999699000", OF k apple_receipt_data q]
  have 4: "fst (verifyiOSReceipt
          (mock 1700000000000 (Inl Thrown) (Inr apple_info)
             (Inr (apple_payload ''100_tokens'' 1 1699999699000)) (Inr minted)) ?r) =
        Inl (Error ''Purchase time is too old'')"
    by (simp add: model_defs mock_defs)
  from apple_checks_in_order[where segment = "Some ''payload''"
      and payload = "apple_payload ''100_tokens'' 1 1700000000000"
      and purchaseDate = "Some 1700000000000", OF k apple_receipt_data q]
  have 5: "fst (verifyiOSReceipt
          (mock 1700000000000 (Inl Thrown) (Inr apple_info)
             (Inr (apple_payload ''100_tokens'' 1 1700000000000)) (Inr minted)) ?r) = Inr ()"
    by (simp add: model_defs mock_defs)
  from 1 2 3 4 5 show ?thesis by simp
qed

section \<open>What the Apple verifier reads of the claimed receipt\<close>

text \<open>
  C10. Two Apple receipts whose inner receipt data agree on \<^verbatim>\<open>transactionID\<close>,
  \<^verbatim>\<open>productID\<close> and \<^verbatim>\<open>quantity\<close> get the same result from the Apple verifier
  in the same environment, and the same query is made, however they differ elsewhere.
\<close>

theorem apple_verdict_depends_on_three_fields:
  assumes "get_prop r1 ''receiptData'' = Inr d1"
    and "get_prop r2 ''receiptData'' = Inr d2"
    and "get_prop d1 ''transactionID'' = get_prop d2 ''transactionID''"
    and "get_prop d1 ''productID'' = get_prop d2 ''productID''"
    and "get_prop d1 ''quantity'' = get_prop d2 ''quantity''"
  shows "verifyiOSReceipt e r1 = verifyiOSReceipt e r2"
proof -
  have "apple_checks e r1 info = apple_checks e r2 info" for info
    unfolding apple_checks_def assms(1) assms(2) and_then_Inr assms(4) assms(5) ..
  then have checks: "apple_checks e r1 = apple_checks e r2"
    by (rule ext)
  show ?thesis
    unfolding verifyiOSReceipt_def assms(1) assms(2) and_then_Inr assms(3) checks ..
qed

theorem apple_verdict_depends_on_three_fields_witness:
  "verifyiOSReceipt
     (mock 1700000000000 (Inl Thrown) (Inr apple_info)
        (Inr (apple_payload ''100_tokens'' 1 1700000000000)) (Inr minted))
     (Json (apple_receipt 1 ''2023-11-14 22:00:00'')) =
   (Inr (), [AppleQuery (Json (JStr ''t1''))])"
proof -
  let ?e = "mock 1700000000000 (Inl Thrown) (Inr apple_info)
        (Inr (apple_payload ''100_tokens'' 1 1700000000000)) (Inr minted)"
  have same: "get_prop (read_prop (Json (apple_receipt 1 ''2023-11-14 22:00:00'')) ''receiptData'') k =
              get_prop (read_prop (Json (apple_receipt 1 [])) ''receiptData'') k"
    if "k \<in> {''transactionID'', ''productID'', ''quantity''}" for k
    using that by (auto simp: get_prop_def apple_receipt_def)
  have "verifyiOSReceipt ?e (Json (apple_receipt 1 ''2023-11-14 22:00:00'')) =
        verifyiOSReceipt ?e (Json (apple_receipt 1 []))"
    by (rule apple_verdict_depends_on_three_fields[OF apple_receipt_data(1) apple_receipt_data(1)])
       (simp_all add: same)
  also have "\<dots> = (Inr (), [AppleQuery (Json (JStr ''t1''))])"
    by (simp add: model_defs mock_defs)
  finally show ?thesis .
qed

section \<open>Requests that are answered\<close>

text \<open>
  C9, as amended. When the request carries a receipt whose inner receipt data is neither
  \<^verbatim>\<open>undefined\<close> nor \<^verbatim>\<open>null\<close>, has no own property named
  \<^verbatim>\<open>hasOwnProperty\<close>, and whose product ID can be converted to a property key,
  \<^verbatim>\<open>validate\<close> writes a response, and its status is 200, 400 or 401.
\<close>

theorem classified_request_is_answered:
  assumes "get_prop req ''receipt'' = Inr receipt"
    and "get_prop receipt ''receiptData'' = Inr rd"
    and "\<not> nullish rd"
    and "\<not> has_own rd ''hasOwnProperty''"
    and "to_string (Number_toString e) (read_prop rd ''productID'') = Inr key"
  shows "\<exists>status body. fst (validate e req) = Responded status body \<and>
           status \<in> {200, 400, 401}"
proof -
  let ?g = "if has_own rd ''purchaseToken'' then receipt else Undefined"
  let ?a = "if has_own rd ''purchaseToken'' then Undefined else receipt"
  have p: "parse_receipt req = Inr (?g, ?a)"
    using parse_receipt_classified[OF assms(1-4)] by simp
  have r: "reward_of e receipt = Inr (read_prop (Json REWARD_MAPPING) key)"
  proof -
    have "get_prop (Json REWARD_MAPPING) key = Inr (read_prop (Json REWARD_MAPPING) key)"
      by (simp add: get_prop_def REWARD_MAPPING_def)
    with assms(2,3,5) show ?thesis
      by (simp add: reward_of_def get_prop_not_nullish)
  qed
  have f: "find_reward e ?g ?a = Inr (read_prop (Json REWARD_MAPPING) key)"
    using r receipt_with_data_truthy[OF assms(2,3)] by (simp add: find_reward_def)
  obtain res calls where v: "validate_receipt e ?g ?a = (res, calls)"
    by (cases "validate_receipt e ?g ?a")
  obtain status body mc where m:
    "approve_mint e req (read_prop (Json REWARD_MAPPING) key) = (Responded status body, mc)"
    "status \<in> {200, 400}"
    using approve_mint_responds by blast
  show ?thesis
    using p f v m
    by (cases res) (auto simp: validate_def)
qed

theorem classified_request_is_answered_witness:
  "(\<exists>status body.
      fst (validate (mock 1700000000000 (Inr (google_data 0 1700000000000 ''ord1''))
                       (Inl Thrown) (Inl Thrown) (Inr minted))
             (google_request ''100_tokens'')) = Responded status body \<and>
      status \<in> {200, 400, 401})
   \<and> (\<exists>status body.
      fst (validate (mock 1700000000000 (Inl Thrown) (Inl Thrown) (Inl Thrown) (Inr minted))
             (Json (JObj [(''receipt'', JObj [(''receiptData'', JObj [])])]))) =
        Responded status body \<and>
      status \<in> {200, 400, 401})"
proof -
  have g: "get_prop (google_request ''100_tokens'') ''receipt'' =
             Inr (Json (google_receipt ''100_tokens''))"
    by (simp add: model_defs mock_defs)
  have gd: "get_prop (Json (google_receipt ''100_tokens'')) ''receiptData'' =
              Inr (read_prop (Json (google_receipt ''100_tokens'')) ''receiptData'')"
    by (simp add: model_defs mock_defs)
  have gn: "\<not> nullish (read_prop (Json (google_receipt ''100_tokens'')) ''receiptData'')"
    by (simp add: nullish_def mock_defs)
  have gh: "\<not> has_own (read_prop (Json (google_receipt ''100_tokens'')) ''receiptData'')
               ''hasOwnProperty''"
    by (simp add: mock_defs)
  have gk: "to_string (Number_toString e)
              (read_prop (read_prop (Json (google_receipt ''100_tokens'')) ''receiptData'')
                 ''productID'') = Inr ''100_tokens''" for e
    by (simp add: mock_defs)
  have m: "get_prop (Json (JObj [(''receipt'', JObj [(''receiptData'', JObj [])])])) ''receipt'' =
             Inr (Json (JObj [(''receiptData'', JObj [])]))"
    by (simp add: model_defs)
  have md: "get_prop (Json (JObj [(''receiptData'', JObj [])])) ''receiptData'' =
              Inr (Json (JObj []))"
    by (simp add: model_defs)
  have mn: "\<not> nullish (Json (JObj []))"
    by (simp add: nullish_def)
  have mh: "\<not> has_own (Json (JObj [])) ''hasOwnProperty''"
    by simp
  have mk: "to_string (Number_toString e) (read_prop (Json (JObj [])) ''productID'') =
              Inr ''undefined''" for e
    by (simp add: inherited_def Object_prototype_def)
  from classified_request_is_answered[OF g gd gn gh gk]
    classified_request_is_answered[OF m md mn mh mk]
  show ?thesis
    by blast
qed

text \<open>
  A body without a receipt, and a receipt without inner receipt data, end in a
  \<^verbatim>\<open>TypeError\<close> that leaves \<^verbatim>\<open>validate\<close>: no response is written.
\<close>

theorem malformed_request_escapes:
  "validate (mock 1700000000000 (Inl Thrown) (Inl Thrown) (Inl Thrown) (Inr minted))
      (Json (JObj [(''toAddress'', JStr ''0xABC'')])) =
     (Escaped (TypeError (''Cannot read properties of undefined (reading '' @
                          quoted ''receiptData'' @ '')'')), [])
   \<and> validate (mock 1700000000000 (Inl Thrown) (Inl Thrown) (Inl Thrown) (Inr minted))
      (Json (JObj [(''receipt'', JObj []), (''toAddress'', JStr ''0xABC'')])) =
     (Escaped (TypeError (''Cannot read properties of undefined (reading '' @
                          quoted ''hasOwnProperty'' @ '')'')), [])"
  by (simp add: model_defs)

section \<open>The freshness window\<close>

text \<open>
  The Apple verifier on a decoded purchase date \<open>t\<close>, a whole number of milliseconds,
  with the clock and \<open>t\<close> valid dates: when every other check passes, the result is
  \<^verbatim>\<open>Purchase time is too old\<close> exactly when \<open>t\<close> is more than 300000 ms before
  the clock, and success otherwise.
\<close>

theorem apple_freshness_window:
  assumes "\<bar>real_of_int (Date_now e) - 300000\<bar> \<le> 8640000000000000"
    and "\<bar>real_of_int t\<bar> \<le> 8640000000000000"
    and "readFile e ''subscription-key.p8'' = Inr pem"
    and "get_prop receipt ''receiptData'' = Inr rd" and "\<not> nullish rd"
    and "getTransactionInfo e
           \<lparr>signingKey = pem, keyId = stripQuotes (APPLE_APP_STORE_KEY_ID e),
            issuerId = stripQuotes (APPLE_APP_STORE_ISSUER_ID e),
            bundleId = stripQuotes (APPLE_APP_STORE_BUNDLE_ID e)\<rparr>
           (read_prop rd ''transactionID'') = Inr info"
    and "truthy info" and "truthy (read_prop info ''signedTransactionInfo'')"
    and "second_segment (read_prop info ''signedTransactionInfo'') = Inr segment"
    and "decode_payload e segment = Inr payload" and "payload \<noteq> JNull"
    and "strict_eq (read_prop (Json payload) ''productId'') (read_prop rd ''productID'')"
    and "strict_eq (read_prop (Json payload) ''quantity'') (read_prop rd ''quantity'')"
    and "read_prop (Json payload) ''purchaseDate'' = Json (JNum (real_of_int t))"
  shows "fst (verifyiOSReceipt e receipt) =
           (if t < Date_now e - 300000 then Inl (Error ''Purchase time is too old'')
            else Inr ())"
proof -
  have "fst (verifyiOSReceipt e receipt) = apple_checks e receipt info"
    using verifyiOSReceipt_answered[OF assms(3-6)] .
  also have "\<dots> =
      and_then (new_Date (Number_toString e) (Date_parse e) (Json (JNum (real_of_int t))))
        (\<lambda>purchaseDate.
           if date_less purchaseDate (earliestOkDate e)
           then Inl (Error ''Purchase time is too old'') else Inr ())"
    using apple_checks_decoded[OF assms(4,5,7-11)] assms(12-14) by simp
  finally show ?thesis
    using too_old_iff[OF assms(1,2)] by simp
qed

theorem apple_freshness_window_witness:
  "fst (verifyiOSReceipt
          (mock 1700000000000 (Inl Thrown) (Inr apple_info)
             (Inr (apple_payload ''100_tokens'' 1 1699999699000)) (Inr minted))
          (Json (apple_receipt 1 []))) = Inl (Error ''Purchase time is too old'')
   \<and> fst (verifyiOSReceipt
          (mock 1700000000000 (Inl Thrown) (Inr apple_info)
             (Inr (apple_payload ''100_tokens'' 1 1699999701000)) (Inr minted))
          (Json (apple_receipt 1 []))) = Inr ()
   \<and> fst (verifyiOSReceipt
          (mock 1700000000000 (Inl Thrown) (Inr apple_info)
             (Inr (apple_payload ''100_tokens'' 1 1700003600000)) (Inr minted))
          (Json (apple_receipt 1 []))) = Inr ()"
proof -
  let ?r = "Json (apple_receipt 1 [])"
  have w: "fst (verifyiOSReceipt
          (mock 1700000000000 (Inl Thrown) (Inr apple_info)
             (Inr (apple_payload ''100_tokens'' 1 (real_of_int t))) (Inr minted)) ?r) =
        (if t < 1700000000000 - 300000 then Inl (Error ''Purchase time is too old'')
         else Inr ())"
    if "\<bar>real_of_int t\<bar> \<le> 8640000000000000" for t
  proof -
    let ?e = "mock 1700000000000 (Inl Thrown) (Inr apple_info)
             (Inr (apple_payload ''100_tokens'' 1 (real_of_int t))) (Inr minted)"
    have clock: "\<bar>real_of_int (Date_now ?e) - 300000\<bar> \<le> 8640000000000000"
      by (simp add: mock_def)
    have k: "readFile ?e ''subscription-key.p8'' = Inr ''p8''"
      by (simp add: mock_def)
    have q: "getTransactionInfo ?e c tid = Inr apple_info" for c tid
      by (simp add: mock_def)
    have i: "truthy apple_info" "truthy (read_prop apple_info ''signedTransactionInfo'')"
      by (simp_all add: apple_info_def)
    have s: "second_segment (read_prop apple_info ''signedTransactionInfo'') =
               Inr (Some ''payload'')"
      by (simp add: apple_info_def second_segment_def)
    have d: "decode_payload ?e (Some ''payload'') =
               Inr (apple_payload ''100_tokens'' 1 (real_of_int t))"
      by (simp add: decode_payload_def mock_def)
    have n: "apple_payload ''100_tokens'' 1 (real_of_int t) \<noteq> JNull"
      by (simp add: apple_payload_def)
    have pr: "strict_eq (read_prop (Json (apple_payload ''100_tokens'' 1 (real_of_int t)))
                 ''productId'') (read_prop (read_prop ?r ''receiptData'') ''productID'')"
      by (simp add: apple_payload_def apple_receipt_def strict_eq_def)
    have qu: "strict_eq (read_prop (Json (apple_payload ''100_tokens'' 1 (real_of_int t)))
                 ''quantity'') (read_prop (read_prop ?r ''receiptData'') ''quantity'')"
      by (simp add: apple_payload_def apple_receipt_def strict_eq_def)
    have pd: "read_prop (Json (apple_payload ''100_tokens'' 1 (real_of_int t))) ''purchaseDate'' =
                Json (JNum (real_of_int t))"
      by (simp add: apple_payload_def)
    from apple_freshness_window[OF clock that k apple_receipt_data q i s d n pr qu pd]
    show ?thesis by (simp add: mock_def)
  qed
  from w[of 1699999699000] w[of 1699999701000] w[of 1700003600000]
  show ?thesis by simp
qed

text \<open>
  C6 at a Google purchase 5 minutes and 1 second old. The Google client returns the
  purchase time as a string of digits; the date constructed from it is invalid, so the
  comparison with the earliest accepted date is false: the receipt is accepted and the
  reward minted. The Apple verifier rejects a decoded purchase date of the same age.
\<close>

theorem stale_google_purchase_is_accepted:
  "validate
     (mock 1700000000000 (Inr (google_data_text 0 ''1699999699000'' ''ord1'')) (Inl Thrown)
        (Inl Thrown) (Inr minted))
     (google_request ''100_tokens'') =
   (Responded 200 minted,
    [GoogleQuery (Json (JStr ''com.x'')) (Json (JStr ''100_tokens'')) (Json (JStr ''tok1'')),
     MintPost
       ''https://engine.test/contract/137/0x33D1a021aFbE0CFB0AC7CcB7c5A247777b3e7c50/erc20/mint-to''
       \<lparr>toAddress = Json (JStr ''0xABC''), amount = Json (JStr ''100'')\<rparr>
       [(''x-backend-wallet-address'', ''0xWALLET''), (''Authorization'', ''Bearer secret'')]])
   \<and> fst (verifyiOSReceipt
          (mock 1700000000000 (Inl Thrown) (Inr apple_info)
             (Inr (apple_payload ''100_tokens'' 1 1699999699000)) (Inr minted))
          (Json (apple_receipt 1 []))) = Inl (Error ''Purchase time is too old'')
   \<and> (1699999699000::int) = 1700000000000 - (5 * 60 + 1) * 1000"
  by (simp add: model_defs mock_defs google_data_text_def)

section \<open>Products that are not in the catalog\<close>

text \<open>
  C2 at the product ID \<^verbatim>\<open>constructor\<close>. The catalog has no such entry, but the
  lookup finds the property that every object inherits under that name, which is truthy:
  the request is not answered 400, the Google verifier is queried, and when the store
  confirms the purchase the minting service is called for the contract
  \<^verbatim>\<open>undefined\<close> with no amount.
\<close>

theorem inherited_product_name_is_verified:
  "validate (mock 1700000000000 (Inl (Error ''Not Found'')) (Inl Thrown) (Inl Thrown)
             (Inr minted)) (google_request ''constructor'') =
     (Responded 401 (Json (JObj [(''message'', JStr ''Unable to validate receipt: Not Found'')])),
      [GoogleQuery (Json (JStr ''com.x'')) (Json (JStr ''constructor'')) (Json (JStr ''tok1''))])
   \<and> validate (mock 1700000000000 (Inr (google_data 0 1700000000000 ''ord1'')) (Inl Thrown)
             (Inl Thrown) (Inr minted)) (google_request ''constructor'') =
     (Responded 200 minted,
      [GoogleQuery (Json (JStr ''com.x'')) (Json (JStr ''constructor'')) (Json (JStr ''tok1'')),
       MintPost ''https://engine.test/contract/137/undefined/erc20/mint-to''
         \<lparr>toAddress = Json (JStr ''0xABC''), amount = Undefined\<rparr>
         [(''x-backend-wallet-address'', ''0xWALLET''), (''Authorization'', ''Bearer secret'')]])
   \<and> \<not> has_own (Json REWARD_MAPPING) ''constructor''"
  by (simp add: model_defs mock_defs)

text \<open>
  A product ID that is a string, not the key of the catalog and not a property name of
  \<^verbatim>\<open>Object.prototype\<close>, is answered 400 before any call is made.
\<close>

theorem unknown_product_400:
  assumes "get_prop req ''receipt'' = Inr receipt"
    and "get_prop receipt ''receiptData'' = Inr rd"
    and "\<not> nullish rd"
    and "\<not> has_own rd ''hasOwnProperty''"
    and "read_prop rd ''productID'' = Json (JStr p)"
    and "p \<noteq> ''100_tokens''"
    and "p \<notin> set Object_prototype"
  shows "validate e req =
           (Responded 400
              (Json (JObj [(''message'', JStr ''Invalid product ID, could not find reward.'')])),
            [])"
proof -
  let ?g = "if has_own rd ''purchaseToken'' then receipt else Undefined"
  let ?a = "if has_own rd ''purchaseToken'' then Undefined else receipt"
  have p: "parse_receipt req = Inr (?g, ?a)"
    using parse_receipt_classified[OF assms(1-4)] by simp
  have "get_prop (Json REWARD_MAPPING) p = Inr Undefined"
    using assms(6,7) by (simp add: get_prop_def REWARD_MAPPING_def inherited_def)
  then have "reward_of e receipt = Inr Undefined"
    using assms(2,3,5) by (simp add: reward_of_def get_prop_not_nullish)
  then have f: "find_reward e ?g ?a = Inr Undefined"
    using receipt_with_data_truthy[OF assms(2,3)] by (simp add: find_reward_def)
  show ?thesis
    using p f by (simp add: validate_def message_body_def)
qed

theorem unknown_product_400_witness:
  "validate (mock 1700000000000 (Inr (google_data 0 1700000000000 ''ord1'')) (Inl Thrown)
             (Inl Thrown) (Inr minted)) (google_request ''500_tokens'') =
     (Responded 400
        (Json (JObj [(''message'', JStr ''Invalid product ID, could not find reward.'')])),
      [])"
proof -
  let ?r = "Json (google_receipt ''500_tokens'')"
  have g: "get_prop (google_request ''500_tokens'') ''receipt'' = Inr ?r"
    by (simp add: model_defs mock_defs)
  have h: "\<not> has_own (read_prop ?r ''receiptData'') ''hasOwnProperty''"
    by (simp add: mock_defs)
  have i: "read_prop (read_prop ?r ''receiptData'') ''productID'' = Json (JStr ''500_tokens'')"
    by (simp add: mock_defs)
  have n: "''500_tokens'' \<noteq> ''100_tokens''"
    by simp
  have o: "''500_tokens'' \<notin> set Object_prototype"
    by (simp add: Object_prototype_def)
  from unknown_product_400[OF g google_receipt_data h i n o] show ?thesis .
qed

end
